theory Spec2Isabelle
  imports Main
begin

section \<open>The enhancement gateway of \<open>main.py\<close>\<close>

text \<open>
  \<open>main.py\<close> is a FastAPI application with three working endpoints,
  \<open>enhance_image_from_url\<close>, \<open>enhance_image_from_file\<close> and \<open>enhance_batch\<close>. Each one
  validates its input, calls the remote upscaling model through \<open>replicate.run\<close> and turns
  the outcome into a response or into an \<open>HTTPException\<close>.

  The embedding passes the world explicitly. A handler takes the world before the request
  and returns its outcome together with the world after it: \<open>Inl e\<close> when the handler
  raises \<open>e\<close>, \<open>Inr v\<close> when it returns \<open>v\<close>.
\<close>

subsection \<open>Python values\<close>

type_synonym path = string
type_synonym bytes = string

text \<open>
  The dictionaries the handlers build hold strings, integers, lists, nested dictionaries
  and, in the upload handler, an open file handle. A handle is modelled by the path it was
  opened on and the bytes it yields. A dictionary is an association list in the order of
  the literal in the source.
\<close>

datatype pyval =
    PyStr string
  | PyInt int
  | PyFile path bytes
  | PyList "pyval list"
  | PyDict "(string \<times> pyval) list"

type_synonym dict = "(string \<times> pyval) list"

subsection \<open>Exceptions\<close>

text \<open>
  Two kinds of exception matter to the handlers: FastAPI's \<open>HTTPException\<close> with its status
  code and detail, and every other \<open>Exception\<close>, of which the handlers only ever use
  \<open>str(e)\<close>; \<open>Exception m\<close> is such an exception with \<open>str(e) = m\<close>.

  \<open>str\<close> of an \<open>HTTPException\<close> is defined by the web framework, not by this program, so
  it is a parameter \<open>http_str\<close> of the model (status code and detail to text).
\<close>

datatype exn =
    HTTPException (status_code: nat) (detail: string)
  | Exception string

fun str_exn :: "(nat \<Rightarrow> string \<Rightarrow> string) \<Rightarrow> exn \<Rightarrow> string" where
  "str_exn http_str (HTTPException c d) = http_str c d"
| "str_exn http_str (Exception m) = m"

subsection \<open>The world: the remote model and the local file system\<close>

text \<open>
  \<open>replicate.run(MODEL_NAME, input=input_data)\<close> is the delegate call. The remote model is
  opaque: it is a parameter \<open>run\<close> that maps its own state, the model name and the input
  dictionary to an outcome and a new state. \<open>Inr out\<close> is a returned output with
  \<open>str(output) = out\<close>; \<open>Inl m\<close> is a raised exception (a library or network error, never
  an \<open>HTTPException\<close>) with \<open>str(e) = m\<close>. The state lets the delegate answer differently
  from one call to the next.

  The world holds the state of the remote model, the local files, and a log of the
  delegate calls made so far (input and outcome of each, oldest first). The log is what a
  recording stub would see; no handler reads it.
\<close>

type_synonym 's delegate = "'s \<Rightarrow> string \<Rightarrow> dict \<Rightarrow> (string + string) \<times> 's"

record 's world =
  remote :: 's
  calls :: "(dict \<times> (string + string)) list"
  files :: "path \<rightharpoonup> bytes"

definition MODEL_NAME :: string where
  "MODEL_NAME =
     ''nightmareai/real-esrgan:f121d640bd286e1fdc67f9799164c1d5be36ff74576ee11c803ae5b665dd46aa''"

definition replicate_run ::
  "'s delegate \<Rightarrow> string \<Rightarrow> dict \<Rightarrow> 's world \<Rightarrow> (string + string) \<times> 's world" where
  "replicate_run run model input_data w =
     (case run (remote w) model input_data of
        (r, s') \<Rightarrow> (r, w\<lparr>remote := s', calls := calls w @ [(input_data, r)]\<rparr>))"

text \<open>
  \<open>open(p, "rb")\<close> and \<open>os.unlink(p)\<close> raise \<open>FileNotFoundError\<close> on a path that does not
  exist; \<open>os.path.exists(p)\<close> is the lookup \<open>files w p \<noteq> None\<close>. The text of that error
  is made by Python and the operating system, so it is a parameter \<open>fnf_str\<close> of the model
  (path to \<open>str(e)\<close>).
\<close>

definition os_unlink :: "(path \<Rightarrow> string) \<Rightarrow> path \<Rightarrow> 's world \<Rightarrow> exn + 's world" where
  "os_unlink fnf_str p w =
     (if files w p = None then Inl (Exception (fnf_str p))
      else Inr (w\<lparr>files := (files w)(p := None)\<rparr>))"

text \<open>
  Lines 112 to 114 create the temporary file with
  \<open>tempfile.NamedTemporaryFile(delete=False, suffix=...)\<close>, write the uploaded bytes and close
  it on leaving the \<open>with\<close> block. The operating system decides how that goes, so the
  outcome is a parameter of the model:
  \<^item> \<open>CreateFails m\<close>: the creation raises an \<open>OSError\<close> with \<open>str(e) = m\<close>; no file exists;
  \<^item> \<open>WriteFails p b m\<close>: the file is created at \<open>p\<close>, then \<open>write\<close> or the closing flush
    raises an \<open>OSError\<close> with \<open>str(e) = m\<close> (a full disk, say); \<open>b\<close> are the bytes that
    reached the file, which stays on disk since \<open>delete=False\<close>;
  \<^item> \<open>Created p\<close>: the file is created at \<open>p\<close>, holds the uploaded bytes and is closed.
\<close>

datatype tempfile_outcome =
    CreateFails string
  | WriteFails path bytes string
  | Created path

subsection \<open>Request and response models\<close>

record ImageEnhanceRequest =
  image_url :: string
  scale :: "int option"

record ImageEnhanceResponse =
  enhanced_image_url :: string
  original_image_url :: string
  scale :: int
  status :: string

text \<open>
  \<open>image_url\<close> is the text \<open>str(request.image_url)\<close> of the validated URL. The request's
  \<open>scale\<close> is \<open>Optional[int]\<close>, so \<open>None\<close> is a value it can take.

  An upload has a file name, an optional content type and the bytes that
  \<open>await file.read()\<close> yields.
\<close>

record UploadFile =
  filename :: string
  content_type :: "string option"
  content :: bytes


definition startswith :: "string \<Rightarrow> string \<Rightarrow> bool" where
  "startswith s p = (take (length p) s = p)"

subsection \<open>\<open>POST /enhance-from-url\<close>\<close>

text \<open>The body of the \<open>try\<close> block, lines 66 to 85.\<close>

definition enhance_image_from_url_try ::
  "'s delegate \<Rightarrow> ImageEnhanceRequest \<Rightarrow> 's world \<Rightarrow> (exn + ImageEnhanceResponse) \<times> 's world"
  where
  "enhance_image_from_url_try run request w =
     (case ImageEnhanceRequest.scale request of
        None \<Rightarrow> (Inl (HTTPException 400 ''Scale must be 2, 4, or 8''), w)
      | Some sc \<Rightarrow>
          if sc \<notin> set [2, 4, 8]
          then (Inl (HTTPException 400 ''Scale must be 2, 4, or 8''), w)
          else
            (case replicate_run run MODEL_NAME
                    [(''image'', PyStr (image_url request)), (''scale'', PyInt sc)] w of
               (Inl m, w') \<Rightarrow> (Inl (Exception m), w')
             | (Inr output, w') \<Rightarrow>
                 (Inr \<lparr>enhanced_image_url = output,
                       original_image_url = image_url request,
                       scale = sc,
                       status = ''success''\<rparr>, w')))"

text \<open>
  The handler with its single \<open>except Exception as e\<close> clause, lines 87 and 88. The clause
  catches every exception of the body, the \<open>HTTPException\<close> of the scale check included.
\<close>

definition enhance_image_from_url ::
  "(nat \<Rightarrow> string \<Rightarrow> string) \<Rightarrow> 's delegate \<Rightarrow> ImageEnhanceRequest \<Rightarrow> 's world
     \<Rightarrow> (exn + ImageEnhanceResponse) \<times> 's world" where
  "enhance_image_from_url http_str run request w =
     (case enhance_image_from_url_try run request w of
        (Inl e, w') \<Rightarrow>
          (Inl (HTTPException 500 (''Enhancement failed: '' @ str_exn http_str e)), w')
      | (Inr response, w') \<Rightarrow> (Inr response, w'))"

subsection \<open>\<open>POST /enhance-from-file\<close>\<close>

text \<open>
  The inner \<open>try\<close> block, lines 117 to 136, entered with the temporary file at \<open>tmp\<close>.
\<close>

definition enhance_image_from_file_inner_try ::
  "(path \<Rightarrow> string) \<Rightarrow> 's delegate \<Rightarrow> path \<Rightarrow> UploadFile \<Rightarrow> int \<Rightarrow> 's world
     \<Rightarrow> (exn + dict) \<times> 's world" where
  "enhance_image_from_file_inner_try fnf_str run tmp upload sc w =
     (case files w tmp of
        None \<Rightarrow> (Inl (Exception (fnf_str tmp)), w)
      | Some f \<Rightarrow>
          (case replicate_run run MODEL_NAME
                  [(''image'', PyFile tmp f), (''scale'', PyInt sc)] w of
             (Inl m, w1) \<Rightarrow> (Inl (Exception m), w1)
           | (Inr output, w1) \<Rightarrow>
               (case os_unlink fnf_str tmp w1 of
                  Inl e \<Rightarrow> (Inl e, w1)
                | Inr w2 \<Rightarrow>
                    (Inr [(''enhanced_image_url'', PyStr output),
                          (''original_filename'', PyStr (filename upload)),
                          (''scale'', PyInt sc),
                          (''status'', PyStr ''success'')], w2))))"

text \<open>The inner \<open>try\<close> with its \<open>except Exception as e\<close> clause, lines 138 to 142.\<close>

definition enhance_image_from_file_inner ::
  "(path \<Rightarrow> string) \<Rightarrow> 's delegate \<Rightarrow> path \<Rightarrow> UploadFile \<Rightarrow> int \<Rightarrow> 's world
     \<Rightarrow> (exn + dict) \<times> 's world" where
  "enhance_image_from_file_inner fnf_str run tmp upload sc w =
     (case enhance_image_from_file_inner_try fnf_str run tmp upload sc w of
        (Inr response, w1) \<Rightarrow> (Inr response, w1)
      | (Inl e, w1) \<Rightarrow>
          if files w1 tmp \<noteq> None
          then (case os_unlink fnf_str tmp w1 of
                  Inl e' \<Rightarrow> (Inl e', w1)
                | Inr w2 \<Rightarrow> (Inl e, w2))
          else (Inl e, w1))"

text \<open>
  The body of the outer \<open>try\<close> block, lines 100 to 142. Lines 112 to 114 stand before the
  inner \<open>try\<close>: an exception they raise leaves the body at once, past the clean-up of
  lines 138 to 141.
\<close>

definition enhance_image_from_file_try ::
  "(path \<Rightarrow> string) \<Rightarrow> 's delegate \<Rightarrow> tempfile_outcome \<Rightarrow> UploadFile \<Rightarrow> int \<Rightarrow> 's world
     \<Rightarrow> (exn + dict) \<times> 's world" where
  "enhance_image_from_file_try fnf_str run tmpfile upload sc w =
     (if (case content_type upload of
            None \<Rightarrow> True
          | Some ct \<Rightarrow> ct = [] \<or> \<not> startswith ct ''image/'')
      then (Inl (HTTPException 400 ''File must be an image''), w)
      else if sc \<notin> set [2, 4, 8]
      then (Inl (HTTPException 400 ''Scale must be 2, 4, or 8''), w)
      else
        (let file_content = content upload
         in case tmpfile of
              CreateFails m \<Rightarrow> (Inl (Exception m), w)
            | WriteFails tmp b m \<Rightarrow>
                (Inl (Exception m), w\<lparr>files := (files w)(tmp \<mapsto> b)\<rparr>)
            | Created tmp \<Rightarrow>
                enhance_image_from_file_inner fnf_str run tmp upload sc
                  (w\<lparr>files := (files w)(tmp \<mapsto> file_content)\<rparr>)))"

text \<open>
  The handler: \<open>except HTTPException: raise\<close> passes an \<open>HTTPException\<close> on unchanged, and
  \<open>except Exception as e\<close> wraps anything else, lines 144 to 147.
\<close>

definition enhance_image_from_file ::
  "(path \<Rightarrow> string) \<Rightarrow> 's delegate \<Rightarrow> tempfile_outcome \<Rightarrow> UploadFile \<Rightarrow> int \<Rightarrow> 's world
     \<Rightarrow> (exn + dict) \<times> 's world" where
  "enhance_image_from_file fnf_str run tmpfile upload sc w =
     (case enhance_image_from_file_try fnf_str run tmpfile upload sc w of
        (Inl (HTTPException c d), w') \<Rightarrow> (Inl (HTTPException c d), w')
      | (Inl (Exception m), w') \<Rightarrow>
          (Inl (HTTPException 500 (''Enhancement failed: '' @ m)), w')
      | (Inr response, w') \<Rightarrow> (Inr response, w'))"

subsection \<open>\<open>POST /enhance-batch\<close>\<close>

text \<open>
  The \<open>for\<close> loop over \<open>enumerate(image_urls)\<close>, lines 188 to 210, with the two lists
  \<open>results\<close> and \<open>errors\<close> it appends to. The inner \<open>try\<close> catches the delegate's exception
  and the loop goes on with the next pair.
\<close>

fun batch_loop ::
  "'s delegate \<Rightarrow> int \<Rightarrow> (nat \<times> string) list \<Rightarrow> pyval list \<Rightarrow> pyval list \<Rightarrow> 's world
     \<Rightarrow> (pyval list \<times> pyval list) \<times> 's world" where
  "batch_loop run sc [] results errors w = ((results, errors), w)"
| "batch_loop run sc ((i, url) # rest) results errors w =
     (case replicate_run run MODEL_NAME [(''image'', PyStr url), (''scale'', PyInt sc)] w of
        (Inr output, w') \<Rightarrow>
          batch_loop run sc rest
            (results @ [PyDict [(''index'', PyInt (int i)),
                                (''original_url'', PyStr url),
                                (''enhanced_url'', PyStr output),
                                (''status'', PyStr ''success'')]])
            errors w'
      | (Inl m, w') \<Rightarrow>
          batch_loop run sc rest results
            (errors @ [PyDict [(''index'', PyInt (int i)),
                               (''original_url'', PyStr url),
                               (''error'', PyStr m),
                               (''status'', PyStr ''failed'')]])
            w')"

text \<open>The body of the outer \<open>try\<close> block, lines 179 to 218.\<close>

definition enhance_batch_try ::
  "'s delegate \<Rightarrow> string list \<Rightarrow> int \<Rightarrow> 's world \<Rightarrow> (exn + dict) \<times> 's world" where
  "enhance_batch_try run image_urls sc w =
     (if length image_urls > 10
      then (Inl (HTTPException 400 ''Batch size limited to 10 images''), w)
      else if sc \<notin> set [2, 4, 8]
      then (Inl (HTTPException 400 ''Scale must be 2, 4, or 8''), w)
      else
        (case batch_loop run sc (enumerate 0 image_urls) [] [] w of
           ((results, errors), w') \<Rightarrow>
             (Inr [(''results'', PyList results),
                   (''errors'', PyList errors),
                   (''total_processed'', PyInt (int (length results))),
                   (''total_failed'', PyInt (int (length errors))),
                   (''scale'', PyInt sc)], w')))"

text \<open>The handler with its two \<open>except\<close> clauses, lines 220 to 223.\<close>

definition enhance_batch ::
  "'s delegate \<Rightarrow> string list \<Rightarrow> int \<Rightarrow> 's world \<Rightarrow> (exn + dict) \<times> 's world" where
  "enhance_batch run image_urls sc w =
     (case enhance_batch_try run image_urls sc w of
        (Inl (HTTPException c d), w') \<Rightarrow> (Inl (HTTPException c d), w')
      | (Inl (Exception m), w') \<Rightarrow>
          (Inl (HTTPException 500 (''Batch enhancement failed: '' @ m)), w')
      | (Inr response, w') \<Rightarrow> (Inr response, w'))"

subsection \<open>The batch outcomes of the specification\<close>

text \<open>
  The specification asks that the delegate be called once for each URL, in input order,
  whatever earlier calls did. \<open>delegate_outcomes\<close> is what the delegate itself answers
  then: it threads the delegate's state through one call per URL and returns the
  outcomes, in input order, and the state after the last call. It does not use the
  handler.
\<close>

fun delegate_outcomes ::
  "'s delegate \<Rightarrow> int \<Rightarrow> string list \<Rightarrow> 's \<Rightarrow> (string + string) list \<times> 's" where
  "delegate_outcomes run sc [] s = ([], s)"
| "delegate_outcomes run sc (u # us) s =
     (case run s MODEL_NAME [(''image'', PyStr u), (''scale'', PyInt sc)] of
        (r, s1) \<Rightarrow>
          (case delegate_outcomes run sc us s1 of
             (rs, s2) \<Rightarrow> (r # rs, s2)))"

text \<open>
  The specification's \<open>BatchItemOutcome\<close>: a success with index, original URL and enhanced
  URL, or a failure with index, original URL and error message. Given the URLs, the index
  \<open>k\<close> of the first one and the outcome of each call, \<open>successes\<close> and \<open>failures\<close> are the
  two sequences of the specification, each in input order; \<open>batch_loop\<close> is compared with
  them below. \<open>item_index\<close> reads the \<open>index\<close> member of an item.
\<close>

definition success_item :: "nat \<Rightarrow> string \<Rightarrow> string \<Rightarrow> pyval" where
  "success_item i url output =
     PyDict [(''index'', PyInt (int i)),
             (''original_url'', PyStr url),
             (''enhanced_url'', PyStr output),
             (''status'', PyStr ''success'')]"

definition failed_item :: "nat \<Rightarrow> string \<Rightarrow> string \<Rightarrow> pyval" where
  "failed_item i url m =
     PyDict [(''index'', PyInt (int i)),
             (''original_url'', PyStr url),
             (''error'', PyStr m),
             (''status'', PyStr ''failed'')]"

definition item_index :: "pyval \<Rightarrow> int option" where
  "item_index v =
     (case v of
        PyDict d \<Rightarrow> (case map_of d ''index'' of Some (PyInt i) \<Rightarrow> Some i | _ \<Rightarrow> None)
      | _ \<Rightarrow> None)"

fun successes :: "nat \<Rightarrow> string list \<Rightarrow> (string + string) list \<Rightarrow> pyval list" where
  "successes k (u # us) (Inr out # os) = success_item k u out # successes (Suc k) us os"
| "successes k (u # us) (Inl m # os) = successes (Suc k) us os"
| "successes k _ _ = []"

fun failures :: "nat \<Rightarrow> string list \<Rightarrow> (string + string) list \<Rightarrow> pyval list" where
  "failures k (u # us) (Inl m # os) = failed_item k u m # failures (Suc k) us os"
| "failures k (u # us) (Inr out # os) = failures (Suc k) us os"
| "failures k _ _ = []"

subsection \<open>A delegate stub and a rendering for the examples\<close>

text \<open>
  \<open>flaky_stub\<close> counts its calls in its state: a call made in an even state returns the
  output \<open>https://cdn/out.png\<close>, a call made in an odd state raises \<open>boom\<close>.
\<close>

definition flaky_stub :: "nat delegate" where
  "flaky_stub n model input_data =
     (if even n then Inr ''https://cdn/out.png'' else Inl ''boom'', Suc n)"

definition world0 :: "nat \<Rightarrow> nat world" where
  "world0 n = \<lparr>remote = n, calls = [], files = Map.empty\<rparr>"

text \<open>
  The rendering current Starlette gives an \<open>HTTPException\<close>: the status code in decimal,
  a colon and the detail.
\<close>

fun str_nat :: "nat \<Rightarrow> string" where
  "str_nat n =
     (if n < 10 then [''0123456789'' ! n]
      else str_nat (n div 10) @ [''0123456789'' ! (n mod 10)])"

declare str_nat.simps [simp del]

definition starlette_str :: "nat \<Rightarrow> string \<Rightarrow> string" where
  "starlette_str c d = str_nat c @ '': '' @ d"

text \<open>
  An upload named \<open>img.png\<close> with the given content type, and a stand-in for the text of
  a \<open>FileNotFoundError\<close>; no example reaches that error.
\<close>

definition fnf_stub :: "path \<Rightarrow> string" where
  "fnf_stub p = ''[Errno 2] No such file or directory''"

definition upload0 :: "string \<Rightarrow> UploadFile" where
  "upload0 ct = \<lparr>filename = ''img.png'', content_type = Some ct, content = ''PNG''\<rparr>"

section \<open>Properties\<close>

subsection \<open>The delegate log\<close>

lemma replicate_run_calls:
  "calls (snd (replicate_run run model input_data w)) =
     calls w @ [(input_data, fst (replicate_run run model input_data w))]"
  by (simp add: replicate_run_def split: prod.splits)

lemma replicate_run_files:
  "files (snd (replicate_run run model input_data w)) = files w"
  by (simp add: replicate_run_def split: prod.splits)

subsection \<open>The batch loop against the batch outcomes\<close>

lemma delegate_outcomes_length:
  "delegate_outcomes run sc urls s = (outs, s') \<Longrightarrow> length outs = length urls"
  by (induction urls arbitrary: s outs) (auto split: prod.splits)

text \<open>
  Started on \<open>enumerate k urls\<close>, the loop calls the delegate once for each URL, in
  order, leaves the files alone, and appends exactly the successes to \<open>results\<close> and the
  failures to \<open>errors\<close>. It leaves the delegate in the state after the last call.
\<close>

lemma batch_loop_outcomes:
  "delegate_outcomes run sc urls (remote w) = (outs, s') \<Longrightarrow>
   batch_loop run sc (enumerate k urls) rs es w =
     ((rs @ successes k urls outs, es @ failures k urls outs),
      w\<lparr>remote := s',
        calls := calls w @
          zip (map (\<lambda>u. [(''image'', PyStr u), (''scale'', PyInt sc)]) urls) outs\<rparr>)"
proof (induction urls arbitrary: k rs es w outs)
  case Nil
  then show ?case by simp
next
  case (Cons u us)
  let ?inp = "[(''image'', PyStr u), (''scale'', PyInt sc)]"
  obtain r s1 where call: "run (remote w) MODEL_NAME ?inp = (r, s1)"
    by (cases "run (remote w) MODEL_NAME ?inp")
  obtain outs1 s2 where rest: "delegate_outcomes run sc us s1 = (outs1, s2)"
    by (cases "delegate_outcomes run sc us s1")
  from Cons.prems call rest have outs: "outs = r # outs1" and s2: "s2 = s'"
    by simp_all
  let ?w1 = "w\<lparr>remote := s1, calls := calls w @ [(?inp, r)]\<rparr>"
  have step: "replicate_run run MODEL_NAME ?inp w = (r, ?w1)"
    by (simp add: replicate_run_def call)
  from rest s2 have rest1: "delegate_outcomes run sc us (remote ?w1) = (outs1, s')"
    by simp
  show ?case
  proof (cases r)
    case (Inl m)
    with step outs Cons.IH [OF rest1, of "Suc k" rs "es @ [failed_item k u m]"]
    show ?thesis by (simp add: failed_item_def)
  next
    case (Inr out)
    with step outs Cons.IH [OF rest1, of "Suc k" "rs @ [success_item k u out]" es]
    show ?thesis by (simp add: success_item_def)
  qed
qed

lemma length_successes_failures:
  "length outs = length urls \<Longrightarrow>
   length (successes k urls outs) + length (failures k urls outs) = length urls"
  by (induction k urls outs rule: successes.induct) auto

lemma success_item_in_successes:
  "i < length urls \<Longrightarrow> length outs = length urls \<Longrightarrow> outs ! i = Inr out \<Longrightarrow>
   success_item (k + i) (urls ! i) out \<in> set (successes k urls outs)"
proof (induction k urls outs arbitrary: i rule: successes.induct)
  case (1 k u us out' os)
  then show ?case by (cases i) auto
next
  case (2 k u us m os)
  then show ?case by (cases i) auto
qed auto

lemma failed_item_in_failures:
  "i < length urls \<Longrightarrow> length outs = length urls \<Longrightarrow> outs ! i = Inl m \<Longrightarrow>
   failed_item (k + i) (urls ! i) m \<in> set (failures k urls outs)"
proof (induction k urls outs arbitrary: i rule: failures.induct)
  case (1 k u us m' os)
  then show ?case by (cases i) auto
next
  case (2 k u us out os)
  then show ?case by (cases i) auto
qed auto

lemma item_index_success_item [simp]: "item_index (success_item i u out) = Some (int i)"
  by (simp add: item_index_def success_item_def)

lemma item_index_failed_item [simp]: "item_index (failed_item i u m) = Some (int i)"
  by (simp add: item_index_def failed_item_def)

lemma successes_ascending:
  "\<exists>ixs. map item_index (successes k urls outs) = map Some ixs \<and>
         sorted_wrt (<) ixs \<and> (\<forall>i \<in> set ixs. int k \<le> i)"
proof (induction k urls outs rule: successes.induct)
  case (1 k u us out os)
  then obtain ixs where
    "map item_index (successes (Suc k) us os) = map Some ixs"
    "sorted_wrt (<) ixs" "\<forall>i \<in> set ixs. int (Suc k) \<le> i"
    by blast
  then show ?case
    by (intro exI [of _ "int k # ixs"]) auto
next
  case (2 k u us m os)
  then show ?case by force
qed (auto intro: exI [of _ "[]"])

lemma failures_ascending:
  "\<exists>ixs. map item_index (failures k urls outs) = map Some ixs \<and>
         sorted_wrt (<) ixs \<and> (\<forall>i \<in> set ixs. int k \<le> i)"
proof (induction k urls outs rule: failures.induct)
  case (1 k u us m os)
  then obtain ixs where
    "map item_index (failures (Suc k) us os) = map Some ixs"
    "sorted_wrt (<) ixs" "\<forall>i \<in> set ixs. int (Suc k) \<le> i"
    by blast
  then show ?case
    by (intro exI [of _ "int k # ixs"]) auto
next
  case (2 k u us out os)
  then show ?case by force
qed (auto intro: exI [of _ "[]"])

lemma startswith_image_nonempty: "startswith ct ''image/'' \<Longrightarrow> ct \<noteq> []"
  by (auto simp: startswith_def)

subsection \<open>\<open>enhance_image_from_url\<close>\<close>

text \<open>
  Claim C1 (the code departs from it). A scale outside 2, 4, 8 should give a 400. The scale
  check does raise \<open>HTTPException(400)\<close>, but the only \<open>except\<close> clause of this handler
  catches it and raises a 500 whose detail embeds the text of the 400. The two sibling
  handlers re-raise an \<open>HTTPException\<close> first and do answer 400 on the same scale.
\<close>

theorem enhance_image_from_url_invalid_scale_500:
  "enhance_image_from_url http_str run \<lparr>image_url = ''https://x/img.png'', scale = Some 3\<rparr> w =
     (Inl (HTTPException 500
        (''Enhancement failed: '' @ http_str 400 ''Scale must be 2, 4, or 8'')), w) \<and>
   enhance_image_from_file fnf_str run tmpfile (upload0 ''image/png'') 3 w =
     (Inl (HTTPException 400 ''Scale must be 2, 4, or 8''), w) \<and>
   enhance_batch run [''https://x/img.png''] 3 w =
     (Inl (HTTPException 400 ''Scale must be 2, 4, or 8''), w)"
  by (simp add: enhance_image_from_url_def enhance_image_from_url_try_def
        enhance_image_from_file_def enhance_image_from_file_try_def
        enhance_batch_def enhance_batch_try_def upload0_def startswith_def)

text \<open>
  Claim C2, as stated, fails: the detail is not the delegate's message alone. With a
  delegate that raises \<open>boom\<close> the detail is \<open>Enhancement failed: boom\<close>.
\<close>

theorem enhance_image_from_url_verbatim_counterexample:
  "flaky_stub (remote (world0 1)) MODEL_NAME
       [(''image'', PyStr ''https://x/img.png''), (''scale'', PyInt 2)] = (Inl ''boom'', 2) \<and>
   fst (enhance_image_from_url starlette_str flaky_stub
          \<lparr>image_url = ''https://x/img.png'', scale = Some 2\<rparr> (world0 1)) =
     Inl (HTTPException 500 ''Enhancement failed: boom'') \<and>
   fst (enhance_image_from_url starlette_str flaky_stub
          \<lparr>image_url = ''https://x/img.png'', scale = Some 2\<rparr> (world0 1)) \<noteq>
     Inl (HTTPException 500 ''boom'')"
  by (simp add: enhance_image_from_url_def enhance_image_from_url_try_def replicate_run_def
        flaky_stub_def world0_def)

text \<open>
  Claim C2, amended. When the delegate call of \<open>enhance_image_from_url\<close> raises an
  exception with message \<open>m\<close>, the handler raises \<open>HTTPException\<close> with status 500 and
  detail \<open>Enhancement failed: \<close> followed by \<open>m\<close> unchanged; the delegate was called
  once.
\<close>

theorem enhance_image_from_url_delegate_failure:
  assumes "sc \<in> {2, 4, 8}"
    and "run (remote w) MODEL_NAME [(''image'', PyStr url), (''scale'', PyInt sc)] = (Inl m, s')"
  shows "enhance_image_from_url http_str run \<lparr>image_url = url, scale = Some sc\<rparr> w =
           (Inl (HTTPException 500 (''Enhancement failed: '' @ m)),
            w\<lparr>remote := s',
              calls := calls w @ [([(''image'', PyStr url), (''scale'', PyInt sc)], Inl m)]\<rparr>)"
  using assms
  by (auto simp: enhance_image_from_url_def enhance_image_from_url_try_def replicate_run_def)

theorem enhance_image_from_url_delegate_failure_witness:
  "(2::int) \<in> {2, 4, 8} \<and>
   flaky_stub (remote (world0 1)) MODEL_NAME
       [(''image'', PyStr ''https://x/img.png''), (''scale'', PyInt 2)] = (Inl ''boom'', 2) \<and>
   fst (enhance_image_from_url starlette_str flaky_stub
          \<lparr>image_url = ''https://x/img.png'', scale = Some 2\<rparr> (world0 1)) =
     Inl (HTTPException 500 ''Enhancement failed: boom'')"
proof -
  have h1: "(2::int) \<in> {2, 4, 8}" by simp
  have h2: "flaky_stub (remote (world0 1)) MODEL_NAME
       [(''image'', PyStr ''https://x/img.png''), (''scale'', PyInt 2)] = (Inl ''boom'', 2)"
    by (simp add: flaky_stub_def world0_def)
  from enhance_image_from_url_delegate_failure
         [where run = flaky_stub and w = "world0 1" and http_str = starlette_str, OF h1 h2]
       h1 h2
  show ?thesis by simp
qed

text \<open>
  Claim C9. With a scale of 2, 4 or 8 and a delegate call that returns \<open>r\<close>,
  \<open>enhance_image_from_url\<close> returns the response with \<open>enhanced_image_url = r\<close>, the input
  URL, the input scale and status \<open>success\<close>, after exactly one delegate call. The witness
  is the example of the specification.
\<close>

theorem enhance_image_from_url_success:
  assumes "sc \<in> {2, 4, 8}"
    and "run (remote w) MODEL_NAME [(''image'', PyStr url), (''scale'', PyInt sc)] = (Inr r, s')"
  shows "enhance_image_from_url http_str run \<lparr>image_url = url, scale = Some sc\<rparr> w =
           (Inr \<lparr>enhanced_image_url = r, original_image_url = url, scale = sc,
                 status = ''success''\<rparr>,
            w\<lparr>remote := s',
              calls := calls w @ [([(''image'', PyStr url), (''scale'', PyInt sc)], Inr r)]\<rparr>)"
  using assms
  by (auto simp: enhance_image_from_url_def enhance_image_from_url_try_def replicate_run_def)

theorem enhance_image_from_url_success_witness:
  "(4::int) \<in> {2, 4, 8} \<and>
   flaky_stub (remote (world0 0)) MODEL_NAME
       [(''image'', PyStr ''https://x/img.png''), (''scale'', PyInt 4)] =
     (Inr ''https://cdn/out.png'', 1) \<and>
   fst (enhance_image_from_url starlette_str flaky_stub
          \<lparr>image_url = ''https://x/img.png'', scale = Some 4\<rparr> (world0 0)) =
     Inr \<lparr>enhanced_image_url = ''https://cdn/out.png'',
           original_image_url = ''https://x/img.png'',
           scale = 4,
           status = ''success''\<rparr>"
proof -
  have h1: "(4::int) \<in> {2, 4, 8}" by simp
  have h2: "flaky_stub (remote (world0 0)) MODEL_NAME
       [(''image'', PyStr ''https://x/img.png''), (''scale'', PyInt 4)] =
     (Inr ''https://cdn/out.png'', 1)"
    by (simp add: flaky_stub_def world0_def)
  from enhance_image_from_url_success
         [where run = flaky_stub and w = "world0 0" and http_str = starlette_str, OF h1 h2]
       h1 h2
  show ?thesis by simp
qed

subsection \<open>\<open>enhance_image_from_file\<close>\<close>

text \<open>
  When the temporary file has been created and written, the delegate is called on a handle
  to it, and whether the delegate returns or raises, the world the handler leaves has no
  file at \<open>tmp\<close>: the files are those from before the request with \<open>tmp\<close> removed. On a
  delegate failure the handler raises the 500 in that same world.
\<close>

lemma enhance_image_from_file_created:
  assumes "content_type upload = Some ct" and "startswith ct ''image/''"
    and "sc \<in> {2, 4, 8}"
    and "run (remote w) MODEL_NAME
           [(''image'', PyFile tmp (content upload)), (''scale'', PyInt sc)] = (r, s')"
  shows "enhance_image_from_file fnf_str run (Created tmp) upload sc w =
           (case r of
              Inl m \<Rightarrow> Inl (HTTPException 500 (''Enhancement failed: '' @ m))
            | Inr output \<Rightarrow>
                Inr [(''enhanced_image_url'', PyStr output),
                     (''original_filename'', PyStr (filename upload)),
                     (''scale'', PyInt sc),
                     (''status'', PyStr ''success'')],
            \<lparr>remote = s',
             calls = calls w @
               [([(''image'', PyFile tmp (content upload)), (''scale'', PyInt sc)], r)],
             files = (files w)(tmp := None)\<rparr>)"
proof -
  from assms(2) have "ct \<noteq> []" by (rule startswith_image_nonempty)
  with assms show ?thesis
    by (cases r)
       (simp_all add: enhance_image_from_file_def enhance_image_from_file_try_def
          enhance_image_from_file_inner_def enhance_image_from_file_inner_try_def
          replicate_run_def os_unlink_def)
qed

text \<open>
  When the creation itself fails there is no file and no delegate call; the handler
  raises a 500.
\<close>

lemma enhance_image_from_file_create_fails:
  assumes "content_type upload = Some ct" and "startswith ct ''image/''"
    and "sc \<in> {2, 4, 8}"
  shows "enhance_image_from_file fnf_str run (CreateFails m) upload sc w =
           (Inl (HTTPException 500 (''Enhancement failed: '' @ m)), w)"
proof -
  from assms(2) have "ct \<noteq> []" by (rule startswith_image_nonempty)
  with assms show ?thesis
    by (simp add: enhance_image_from_file_def enhance_image_from_file_try_def)
qed

text \<open>
  Claim C4 (the code departs from it). Once the temporary file exists it should be gone on
  every exit. The handler removes it after the delegate call, on success and in the
  \<open>except\<close> clause commented "Clean up temp file in case of error". But the write of lines
  112 to 114 stands before that \<open>try\<close>: when it raises, with the file already created,
  no clean-up runs, the handler answers 500 and the file is still on disk.
\<close>

theorem enhance_image_from_file_write_failure_keeps_temp_file:
  "enhance_image_from_file fnf_str run
       (WriteFails ''/tmp/tmpq7.png'' [] ''[Errno 28] No space left on device'')
       (upload0 ''image/png'') 2 w =
     (Inl (HTTPException 500 ''Enhancement failed: [Errno 28] No space left on device''),
      w\<lparr>files := (files w)(''/tmp/tmpq7.png'' \<mapsto> [])\<rparr>) \<and>
   files (snd (enhance_image_from_file fnf_str run
                 (WriteFails ''/tmp/tmpq7.png'' [] ''[Errno 28] No space left on device'')
                 (upload0 ''image/png'') 2 w)) ''/tmp/tmpq7.png'' = Some []"
  by (simp add: enhance_image_from_file_def enhance_image_from_file_try_def
        upload0_def startswith_def)

text \<open>
  Claim C8. An upload whose content type is missing or does not begin with \<open>image/\<close> makes
  \<open>enhance_image_from_file\<close> raise \<open>HTTPException(400, "File must be an image")\<close>. The world
  is returned as it was: no delegate call, and no temporary file was created.
\<close>

theorem enhance_image_from_file_not_image:
  assumes "content_type upload = None \<or>
           (\<exists>ct. content_type upload = Some ct \<and> \<not> startswith ct ''image/'')"
  shows "enhance_image_from_file fnf_str run tmpfile upload sc w =
           (Inl (HTTPException 400 ''File must be an image''), w)"
  using assms
  by (auto simp: enhance_image_from_file_def enhance_image_from_file_try_def)

theorem enhance_image_from_file_not_image_witness:
  "content_type (upload0 ''text/plain'') = Some ''text/plain'' \<and>
   \<not> startswith ''text/plain'' ''image/'' \<and>
   enhance_image_from_file fnf_stub flaky_stub (Created ''/tmp/tmpq7.png'')
       (upload0 ''text/plain'') 2 (world0 0) =
     (Inl (HTTPException 400 ''File must be an image''), world0 0) \<and>
   files (snd (enhance_image_from_file fnf_stub flaky_stub (Created ''/tmp/tmpq7.png'')
                 (upload0 ''text/plain'') 2 (world0 0))) ''/tmp/tmpq7.png'' = None"
proof -
  have h1: "content_type (upload0 ''text/plain'') = Some ''text/plain''"
    by (simp add: upload0_def)
  have h2: "\<not> startswith ''text/plain'' ''image/''"
    by (simp add: startswith_def)
  from h1 h2 have h: "content_type (upload0 ''text/plain'') = None \<or>
      (\<exists>ct. content_type (upload0 ''text/plain'') = Some ct \<and> \<not> startswith ct ''image/'')"
    by blast
  from enhance_image_from_file_not_image
         [OF h, of fnf_stub flaky_stub "Created ''/tmp/tmpq7.png''" 2 "world0 0"] h1 h2
  show ?thesis by (simp add: world0_def)
qed




subsection \<open>\<open>enhance_batch\<close>\<close>

text \<open>
  Claim C3. Take at most ten URLs and a scale of 2, 4 or 8, and let \<open>outs\<close> be what the
  delegate answers when called once for each URL in input order, \<open>s'\<close> its state after the
  last call. Then \<open>enhance_batch\<close> returns a response and leaves the delegate in state
  \<open>s'\<close>, its log longer by exactly these calls in this order: a failure stops nothing. The
  two counts are the lengths of the two lists and add up to the number of URLs. For each
  index whose call raised \<open>m\<close>, \<open>errors\<close> holds the entry with that index, the URL at that
  index, the message \<open>m\<close> and status \<open>failed\<close>; for each index whose call returned \<open>out\<close>,
  \<open>results\<close> holds the entry with that index, its URL, \<open>out\<close> and status \<open>success\<close>. The
  indices in each list are strictly ascending.
\<close>

theorem enhance_batch_partial_failure:
  assumes "length image_urls \<le> 10" and "sc \<in> {2, 4, 8}"
    and "delegate_outcomes run sc image_urls (remote w) = (outs, s')"
  shows "\<exists>results errors.
     enhance_batch run image_urls sc w =
       (Inr [(''results'', PyList results),
             (''errors'', PyList errors),
             (''total_processed'', PyInt (int (length results))),
             (''total_failed'', PyInt (int (length errors))),
             (''scale'', PyInt sc)],
        w\<lparr>remote := s',
          calls := calls w @
            zip (map (\<lambda>u. [(''image'', PyStr u), (''scale'', PyInt sc)]) image_urls) outs\<rparr>) \<and>
     length outs = length image_urls \<and>
     length results + length errors = length image_urls \<and>
     (\<forall>i < length image_urls.
        (\<forall>m. outs ! i = Inl m \<longrightarrow>
           PyDict [(''index'', PyInt (int i)),
                   (''original_url'', PyStr (image_urls ! i)),
                   (''error'', PyStr m),
                   (''status'', PyStr ''failed'')] \<in> set errors) \<and>
        (\<forall>out. outs ! i = Inr out \<longrightarrow>
           PyDict [(''index'', PyInt (int i)),
                   (''original_url'', PyStr (image_urls ! i)),
                   (''enhanced_url'', PyStr out),
                   (''status'', PyStr ''success'')] \<in> set results)) \<and>
     (\<exists>ixs. map item_index results = map Some ixs \<and> sorted_wrt (<) ixs) \<and>
     (\<exists>ixs. map item_index errors = map Some ixs \<and> sorted_wrt (<) ixs)"
proof -
  let ?results = "successes 0 image_urls outs"
  let ?errors = "failures 0 image_urls outs"
  have len: "length outs = length image_urls"
    using assms(3) by (rule delegate_outcomes_length)
  have ret: "enhance_batch run image_urls sc w =
       (Inr [(''results'', PyList ?results),
             (''errors'', PyList ?errors),
             (''total_processed'', PyInt (int (length ?results))),
             (''total_failed'', PyInt (int (length ?errors))),
             (''scale'', PyInt sc)],
        w\<lparr>remote := s',
          calls := calls w @
            zip (map (\<lambda>u. [(''image'', PyStr u), (''scale'', PyInt sc)]) image_urls) outs\<rparr>)"
    using assms(1,2) batch_loop_outcomes [OF assms(3), of 0 "[]" "[]"]
    by (auto simp: enhance_batch_def enhance_batch_try_def)
  have total: "length ?results + length ?errors = length image_urls"
    using length_successes_failures [OF len, of 0] by simp
  have members: "\<forall>i < length image_urls.
        (\<forall>m. outs ! i = Inl m \<longrightarrow>
           PyDict [(''index'', PyInt (int i)),
                   (''original_url'', PyStr (image_urls ! i)),
                   (''error'', PyStr m),
                   (''status'', PyStr ''failed'')] \<in> set ?errors) \<and>
        (\<forall>out. outs ! i = Inr out \<longrightarrow>
           PyDict [(''index'', PyInt (int i)),
                   (''original_url'', PyStr (image_urls ! i)),
                   (''enhanced_url'', PyStr out),
                   (''status'', PyStr ''success'')] \<in> set ?results)"
    using failed_item_in_failures [of _ image_urls outs _ 0]
          success_item_in_successes [of _ image_urls outs _ 0] len
    by (simp add: failed_item_def success_item_def)
  have asc_results: "\<exists>ixs. map item_index ?results = map Some ixs \<and> sorted_wrt (<) ixs"
    using successes_ascending [of 0 image_urls outs] by blast
  have asc_errors: "\<exists>ixs. map item_index ?errors = map Some ixs \<and> sorted_wrt (<) ixs"
    using failures_ascending [of 0 image_urls outs] by blast
  from ret len total members asc_results asc_errors show ?thesis
    by blast
qed

text \<open>The response and the world for three URLs when the second delegate call raises.\<close>

lemma enhance_batch_example:
  "enhance_batch flaky_stub [''https://x/a.png'', ''https://x/b.png'', ''https://x/c.png''] 2
     (world0 0) =
   (Inr [(''results'',
            PyList [PyDict [(''index'', PyInt 0),
                            (''original_url'', PyStr ''https://x/a.png''),
                            (''enhanced_url'', PyStr ''https://cdn/out.png''),
                            (''status'', PyStr ''success'')],
                    PyDict [(''index'', PyInt 2),
                            (''original_url'', PyStr ''https://x/c.png''),
                            (''enhanced_url'', PyStr ''https://cdn/out.png''),
                            (''status'', PyStr ''success'')]]),
         (''errors'',
            PyList [PyDict [(''index'', PyInt 1),
                            (''original_url'', PyStr ''https://x/b.png''),
                            (''error'', PyStr ''boom''),
                            (''status'', PyStr ''failed'')]]),
         (''total_processed'', PyInt 2),
         (''total_failed'', PyInt 1),
         (''scale'', PyInt 2)],
    \<lparr>remote = 3,
     calls = [([(''image'', PyStr ''https://x/a.png''), (''scale'', PyInt 2)],
                 Inr ''https://cdn/out.png''),
              ([(''image'', PyStr ''https://x/b.png''), (''scale'', PyInt 2)], Inl ''boom''),
              ([(''image'', PyStr ''https://x/c.png''), (''scale'', PyInt 2)],
                 Inr ''https://cdn/out.png'')],
     files = Map.empty\<rparr>)"
  by (simp add: enhance_batch_def enhance_batch_try_def enumerate_eq_zip upt_rec
        replicate_run_def flaky_stub_def world0_def)

theorem enhance_batch_partial_failure_witness:
  "length [''https://x/a.png'', ''https://x/b.png'', ''https://x/c.png''] \<le> 10 \<and>
   (2::int) \<in> {2, 4, 8} \<and>
   delegate_outcomes flaky_stub 2 [''https://x/a.png'', ''https://x/b.png'', ''https://x/c.png'']
       (remote (world0 0)) =
     ([Inr ''https://cdn/out.png'', Inl ''boom'', Inr ''https://cdn/out.png''], 3) \<and>
   (\<exists>results errors.
     enhance_batch flaky_stub [''https://x/a.png'', ''https://x/b.png'', ''https://x/c.png''] 2
         (world0 0) =
       (Inr [(''results'', PyList results),
             (''errors'', PyList errors),
             (''total_processed'', PyInt (int (length results))),
             (''total_failed'', PyInt (int (length errors))),
             (''scale'', PyInt 2)],
        (world0 0)\<lparr>remote := 3,
          calls := calls (world0 0) @
            zip (map (\<lambda>u. [(''image'', PyStr u), (''scale'', PyInt 2)])
                   [''https://x/a.png'', ''https://x/b.png'', ''https://x/c.png''])
                [Inr ''https://cdn/out.png'', Inl ''boom'', Inr ''https://cdn/out.png'']\<rparr>) \<and>
     length results + length errors = 3 \<and>
     PyDict [(''index'', PyInt 1),
             (''original_url'', PyStr ''https://x/b.png''),
             (''error'', PyStr ''boom''),
             (''status'', PyStr ''failed'')] \<in> set errors \<and>
     PyDict [(''index'', PyInt 0),
             (''original_url'', PyStr ''https://x/a.png''),
             (''enhanced_url'', PyStr ''https://cdn/out.png''),
             (''status'', PyStr ''success'')] \<in> set results \<and>
     PyDict [(''index'', PyInt 2),
             (''original_url'', PyStr ''https://x/c.png''),
             (''enhanced_url'', PyStr ''https://cdn/out.png''),
             (''status'', PyStr ''success'')] \<in> set results \<and>
     (\<exists>ixs. map item_index results = map Some ixs \<and> sorted_wrt (<) ixs) \<and>
     (\<exists>ixs. map item_index errors = map Some ixs \<and> sorted_wrt (<) ixs))"
proof -
  let ?urls = "[''https://x/a.png'', ''https://x/b.png'', ''https://x/c.png'']"
  let ?outs = "[Inr ''https://cdn/out.png'', Inl ''boom'', Inr ''https://cdn/out.png'']"
  have h1: "length ?urls \<le> 10"
    by simp
  have h2: "(2::int) \<in> {2, 4, 8}"
    by simp
  have h3: "delegate_outcomes flaky_stub 2 ?urls (remote (world0 0)) = (?outs, 3)"
    by (simp add: flaky_stub_def world0_def)
  from enhance_batch_partial_failure [OF h1 h2 h3] obtain results errors where
    ret: "enhance_batch flaky_stub ?urls 2 (world0 0) =
       (Inr [(''results'', PyList results),
             (''errors'', PyList errors),
             (''total_processed'', PyInt (int (length results))),
             (''total_failed'', PyInt (int (length errors))),
             (''scale'', PyInt 2)],
        (world0 0)\<lparr>remote := 3,
          calls := calls (world0 0) @
            zip (map (\<lambda>u. [(''image'', PyStr u), (''scale'', PyInt 2)]) ?urls) ?outs\<rparr>)" and
    total: "length results + length errors = length ?urls" and
    members: "\<forall>i < length ?urls.
        (\<forall>m. ?outs ! i = Inl m \<longrightarrow>
           PyDict [(''index'', PyInt (int i)),
                   (''original_url'', PyStr (?urls ! i)),
                   (''error'', PyStr m),
                   (''status'', PyStr ''failed'')] \<in> set errors) \<and>
        (\<forall>out. ?outs ! i = Inr out \<longrightarrow>
           PyDict [(''index'', PyInt (int i)),
                   (''original_url'', PyStr (?urls ! i)),
                   (''enhanced_url'', PyStr out),
                   (''status'', PyStr ''success'')] \<in> set results)" and
    asc: "\<exists>ixs. map item_index results = map Some ixs \<and> sorted_wrt (<) ixs"
         "\<exists>ixs. map item_index errors = map Some ixs \<and> sorted_wrt (<) ixs"
    by blast
  from members have m0: "PyDict [(''index'', PyInt 0),
             (''original_url'', PyStr ''https://x/a.png''),
             (''enhanced_url'', PyStr ''https://cdn/out.png''),
             (''status'', PyStr ''success'')] \<in> set results"
    by (elim allE [of _ 0]) simp
  from members have m1: "PyDict [(''index'', PyInt 1),
             (''original_url'', PyStr ''https://x/b.png''),
             (''error'', PyStr ''boom''),
             (''status'', PyStr ''failed'')] \<in> set errors"
    by (elim allE [of _ 1]) simp
  from members have m2: "PyDict [(''index'', PyInt 2),
             (''original_url'', PyStr ''https://x/c.png''),
             (''enhanced_url'', PyStr ''https://cdn/out.png''),
             (''status'', PyStr ''success'')] \<in> set results"
    by (elim allE [of _ 2]) simp
  from total have total3: "length results + length errors = 3"
    by simp
  from h1 h2 h3 ret total3 m0 m1 m2 asc show ?thesis
    by blast
qed

text \<open>
  Claim C10. On the empty list and a scale of 2, 4 or 8, \<open>enhance_batch\<close> returns the
  response with two empty lists, both counts 0 and the given scale. The world is returned
  as it was, so no delegate call was made.
\<close>

theorem enhance_batch_empty:
  assumes "sc \<in> {2, 4, 8}"
  shows "enhance_batch run [] sc w =
           (Inr [(''results'', PyList []),
                 (''errors'', PyList []),
                 (''total_processed'', PyInt 0),
                 (''total_failed'', PyInt 0),
                 (''scale'', PyInt sc)], w)"
  using assms by (auto simp: enhance_batch_def enhance_batch_try_def)

theorem enhance_batch_empty_witness:
  "(4::int) \<in> {2, 4, 8} \<and>
   enhance_batch flaky_stub [] 4 (world0 1) =
     (Inr [(''results'', PyList []),
           (''errors'', PyList []),
           (''total_processed'', PyInt 0),
           (''total_failed'', PyInt 0),
           (''scale'', PyInt 4)], world0 1)"
proof -
  have h: "(4::int) \<in> {2, 4, 8}" by simp
  from enhance_batch_empty [OF h, of flaky_stub "world0 1"] h show ?thesis by simp
qed

text \<open>
  Claim C7. A batch of more than ten URLs makes \<open>enhance_batch\<close> raise
  \<open>HTTPException(400, "Batch size limited to 10 images")\<close>, whatever the scale is, and the
  world is returned as it was: nothing is added to the delegate log.
\<close>

theorem enhance_batch_too_large:
  assumes "length image_urls > 10"
  shows "enhance_batch run image_urls sc w =
           (Inl (HTTPException 400 ''Batch size limited to 10 images''), w)"
  using assms by (simp add: enhance_batch_def enhance_batch_try_def)

theorem enhance_batch_too_large_witness:
  "length (replicate 11 ''https://x/img.png'') > 10 \<and>
   enhance_batch flaky_stub (replicate 11 ''https://x/img.png'') 2 (world0 0) =
     (Inl (HTTPException 400 ''Batch size limited to 10 images''), world0 0)"
  using enhance_batch_too_large
          [of "replicate 11 ''https://x/img.png''" flaky_stub 2 "world0 0"]
  by simp

subsection \<open>Scale validation in the three handlers\<close>

text \<open>
  Claim C5. For a scale outside 2, 4, 8 (for the URL request also a missing scale) each
  of the three handlers raises an \<open>HTTPException\<close> and returns the world as it was: the
  delegate log is unchanged, so the delegate was not called. The upload and batch handlers
  raise a 400; the URL handler raises the 500 described under claim C1.
\<close>

theorem invalid_scale_rejected_before_delegate:
  assumes "sc \<notin> {2, 4, 8}"
    and "ImageEnhanceRequest.scale request = Some sc \<or> ImageEnhanceRequest.scale request = None"
  shows "enhance_image_from_url http_str run request w =
           (Inl (HTTPException 500
              (''Enhancement failed: '' @ http_str 400 ''Scale must be 2, 4, or 8'')), w) \<and>
         (\<exists>d. enhance_image_from_file fnf_str run tmpfile upload sc w =
                 (Inl (HTTPException 400 d), w)) \<and>
         (\<exists>d. enhance_batch run image_urls sc w = (Inl (HTTPException 400 d), w))"
  using assms
  by (auto simp: enhance_image_from_url_def enhance_image_from_url_try_def
        enhance_image_from_file_def enhance_image_from_file_try_def
        enhance_batch_def enhance_batch_try_def)

theorem invalid_scale_rejected_before_delegate_witness:
  "(3::int) \<notin> {2, 4, 8} \<and>
   enhance_image_from_url starlette_str flaky_stub
       \<lparr>image_url = ''https://x/img.png'', scale = Some 3\<rparr> (world0 0) =
     (Inl (HTTPException 500 ''Enhancement failed: 400: Scale must be 2, 4, or 8''), world0 0) \<and>
   (\<exists>d. enhance_image_from_file fnf_stub flaky_stub (Created ''/tmp/tmpq7.png'')
           (upload0 ''image/png'') 3 (world0 0) = (Inl (HTTPException 400 d), world0 0)) \<and>
   (\<exists>d. enhance_batch flaky_stub [''https://x/img.png''] 3 (world0 0) =
           (Inl (HTTPException 400 d), world0 0))"
proof -
  have h1: "(3::int) \<notin> {2, 4, 8}" by simp
  have h2: "ImageEnhanceRequest.scale \<lparr>image_url = ''https://x/img.png'', scale = Some 3\<rparr> = Some 3
      \<or> ImageEnhanceRequest.scale \<lparr>image_url = ''https://x/img.png'', scale = Some 3\<rparr> = None"
    by simp
  have h3: "starlette_str 400 ''Scale must be 2, 4, or 8'' = ''400: Scale must be 2, 4, or 8''"
    by (simp add: starlette_str_def str_nat.simps)
  show ?thesis
    using invalid_scale_rejected_before_delegate
            [OF h1 h2, of starlette_str flaky_stub "world0 0" fnf_stub
               "Created ''/tmp/tmpq7.png''" "upload0 ''image/png''" "[''https://x/img.png'']"]
          h1 h3
    by simp
qed

end
